theory Spec2Isabelle
  imports Complex_Main
begin

section \<open>Strings of the extension host\<close>

text \<open>
  The extension (\<^verbatim>\<open>src/extension/src/extension.ts\<close>) works on JavaScript strings.
  They are modelled by \<^typ>\<open>string\<close>: every \<^typ>\<open>char\<close> is one code unit in the
  range U+0000 .. U+00FF. On that range \<^verbatim>\<open>String.prototype.trim\<close> removes the code units
  TAB, LF, VT, FF, CR, SPACE and NO-BREAK SPACE from both ends, and
  \<^verbatim>\<open>String.prototype.toLowerCase\<close> moves A .. Z and the Latin-1 capitals
  (U+00C0 .. U+00DE without the multiplication sign U+00D7) up by 32.
\<close>

definition isWhiteSpace :: "char \<Rightarrow> bool" where
  "isWhiteSpace c = (of_char c \<in> {9, 10, 11, 12, 13, 32, 160 :: nat})"

definition trim :: "string \<Rightarrow> string" where
  "trim s = rev (dropWhile isWhiteSpace (rev (dropWhile isWhiteSpace s)))"

definition toLowerCase_char :: "char \<Rightarrow> char" where
  "toLowerCase_char c =
     (let n = (of_char c :: nat)
      in if (65 \<le> n \<and> n \<le> 90) \<or> (192 \<le> n \<and> n \<le> 222 \<and> n \<noteq> 215)
         then char_of (n + 32) else c)"

definition toLowerCase :: "string \<Rightarrow> string" where
  "toLowerCase s = map toLowerCase_char s"

text \<open>\<^verbatim>\<open>s.includes(sub)\<close>: some position of \<open>s\<close> starts with \<open>sub\<close>.\<close>

fun startsWith :: "string \<Rightarrow> string \<Rightarrow> bool" where
  "startsWith s [] = True"
| "startsWith [] (c # cs) = False"
| "startsWith (x # xs) (c # cs) = (x = c \<and> startsWith xs cs)"

fun includes_str :: "string \<Rightarrow> string \<Rightarrow> bool" where
  "includes_str [] sub = startsWith [] sub"
| "includes_str (x # xs) sub = (startsWith (x # xs) sub \<or> includes_str xs sub)"

text \<open>The template literal \<^verbatim>\<open>`${res.statusCode}`\<close> prints a status code in decimal.\<close>

definition digit :: "nat \<Rightarrow> char" where
  "digit d = char_of (48 + d)"

function toString_nat :: "nat \<Rightarrow> string" where
  "toString_nat n = (if n < 10 then [digit n] else toString_nat (n div 10) @ [digit (n mod 10)])"
  by pat_completeness auto
termination
  by (relation "measure (\<lambda>n. n)") auto

declare toString_nat.simps [simp del]

section \<open>Values exchanged with the service\<close>

text \<open>
  \<^verbatim>\<open>postJson\<close> resolves with whatever \<^verbatim>\<open>JSON.parse\<close> returns, typed \<^verbatim>\<open>any\<close>.
  A number is kept as the rational it denotes; the extension never computes with one.
  The members of an object are listed with distinct keys.
\<close>

datatype json =
    JNull
  | JBool bool
  | JNum rat
  | JStr string
  | JArr "json list"
  | JObj "(string \<times> json) list"

text \<open>
  What a \<^verbatim>\<open>throw\<close> or a \<^verbatim>\<open>reject\<close> carries: an error object with its constructor's
  name and its \<^verbatim>\<open>message\<close>.
\<close>

datatype js_error = JsError (error_name: string) (message: string)

text \<open>
  \<^verbatim>\<open>JSON.parse\<close> belongs to the runtime, not to the repository. Every function that
  reaches it takes it as the parameter \<open>parse\<close>: \<open>Inl e\<close> is the SyntaxError \<open>e\<close> it
  throws on a text that is no JSON text, \<open>Inr v\<close> the value it returns.
\<close>

type_synonym json_parser = "string \<Rightarrow> js_error + json"

section \<open>postJson\<close>

text \<open>
  What the network gives back to one \<^verbatim>\<open>postJson\<close> call: the request's
  \<^verbatim>\<open>'error'\<close> event with its error, or the response's \<^verbatim>\<open>'end'\<close> event after the
  \<^verbatim>\<open>'data'\<close> chunks, with \<^verbatim>\<open>res.statusCode\<close> (typed \<^verbatim>\<open>number | undefined\<close>).
  A call that gets neither never settles.
\<close>

datatype net_event =
    RequestError js_error
  | ResponseEnd "nat option" "string list"

text \<open>The \<^verbatim>\<open>'data'\<close> handler: \<^verbatim>\<open>data += chunk\<close>, starting from the empty string.\<close>

definition on_data :: "string list \<Rightarrow> string" where
  "on_data chunks = foldl (\<lambda>data chunk. data @ chunk) [] chunks"

text \<open>
  The \<^verbatim>\<open>'end'\<close> handler. \<^verbatim>\<open>res.statusCode && res.statusCode >= 400\<close> rejects;
  otherwise an empty body resolves with the empty object and any other body goes through
  \<^verbatim>\<open>JSON.parse\<close>, whose exception rejects.
\<close>

definition on_end :: "json_parser \<Rightarrow> nat option \<Rightarrow> string \<Rightarrow> js_error + json" where
  "on_end parse statusCode data =
     (case statusCode of
        Some n \<Rightarrow>
          if n \<noteq> 0 \<and> n \<ge> 400
          then Inl (JsError ''Error'' (''HTTP error! status: '' @ toString_nat n))
          else if data \<noteq> [] then parse data else Inr (JObj [])
      | None \<Rightarrow> if data \<noteq> [] then parse data else Inr (JObj []))"

text \<open>
  The promise of \<^verbatim>\<open>postJson\<close>: \<open>Inl\<close> is a rejection, \<open>Inr\<close> the resolved value.
  The only caller passes the constant endpoint and a body with one string, so building
  the request (\<^verbatim>\<open>new URL\<close>, \<^verbatim>\<open>JSON.stringify\<close>) does not throw; the promise is settled
  by the network's events alone.
\<close>

definition postJson :: "json_parser \<Rightarrow> net_event \<Rightarrow> js_error + json" where
  "postJson parse ev =
     (case ev of
        RequestError err \<Rightarrow> Inl err
      | ResponseEnd statusCode chunks \<Rightarrow> on_end parse statusCode (on_data chunks))"

section \<open>The host\<close>

text \<open>
  The editor's API is outside the repository. It is modelled by what the extension can
  see of it: every call the extension makes is appended to \<open>calls\<close>, in order, and
  \<^verbatim>\<open>createWebviewPanel\<close> returns a panel object that did not exist before, here the
  next unused handle. Every call to the host is taken to return normally. Diagnostic
  \<^verbatim>\<open>console.log\<close> output is left out.
\<close>

type_synonym panel_id = nat

text \<open>The subscriptions returned by \<^verbatim>\<open>onDidDispose\<close> and \<^verbatim>\<open>onDidReceiveMessage\<close>.\<close>

datatype disposable = OnDidDispose panel_id | OnDidReceiveMessage panel_id

text \<open>
  The pages assigned to \<^verbatim>\<open>webview.html\<close>: \<^verbatim>\<open>getHtmlForUrl(url)\<close> and the chat page of
  \<^verbatim>\<open>_getHtmlForWebview\<close>; their markup is not modelled.
\<close>

datatype html = HtmlForUrl string | HtmlForWebview

text \<open>
  The messages posted to the chat page: \<^verbatim>\<open>{type: 'status', message}\<close>,
  \<^verbatim>\<open>{type: 'answer', question, answer, score, trace, mode, drift_data}\<close> and
  \<^verbatim>\<open>{type: 'error', question, message}\<close>.
\<close>

datatype message =
    StatusMsg string
  | AnswerMsg string json json json json json
  | ErrorMsg string string

datatype host_call =
    CreateWebviewPanel panel_id string string int
  | Reveal panel_id "int option"
  | SetHtml panel_id html
  | Listen disposable
  | DisposePanel panel_id
  | DisposeListener disposable
  | PostMessage panel_id message
  | HttpRequest string json
  | OpenExternal string

text \<open>
  An instance of the class \<^verbatim>\<open>ObservabilityPanel\<close>, with its private fields
  \<^verbatim>\<open>_panel\<close>, \<^verbatim>\<open>_extensionUri\<close> and \<^verbatim>\<open>_disposables\<close>.
\<close>

record ObservabilityPanel =
  panel :: panel_id
  extensionUri :: string
  disposables :: "disposable list"

text \<open>
  The state the extension lives in: the static map \<^verbatim>\<open>ArchDriftPanel.panels\<close>, the static
  \<^verbatim>\<open>ObservabilityPanel.currentPanel\<close>, the view column of
  \<^verbatim>\<open>vscode.window.activeTextEditor\<close> (no editor, or an editor with or without a column),
  the number of panels the host has created, and the calls made so far.
\<close>

record state =
  panels :: "string \<rightharpoonup> panel_id"
  currentPanel :: "ObservabilityPanel option"
  activeTextEditor :: "int option option"
  created :: nat
  calls :: "host_call list"

definition host :: "host_call \<Rightarrow> state \<Rightarrow> state" where
  "host c s = s\<lparr>calls := calls s @ [c]\<rparr>"

definition createWebviewPanel :: "string \<Rightarrow> string \<Rightarrow> int \<Rightarrow> state \<Rightarrow> panel_id \<times> state" where
  "createWebviewPanel vt title column s =
     (created s, host (CreateWebviewPanel (created s) vt title column) (s\<lparr>created := Suc (created s)\<rparr>))"

text \<open>\<^verbatim>\<open>activeTextEditor ? activeTextEditor.viewColumn : undefined\<close>\<close>

definition viewColumn :: "state \<Rightarrow> int option" where
  "viewColumn s = (case activeTextEditor s of Some editor \<Rightarrow> editor | None \<Rightarrow> None)"

text \<open>\<^verbatim>\<open>column || fallback\<close>: \<^verbatim>\<open>undefined\<close> and \<open>0\<close> are falsy.\<close>

definition or_column :: "int option \<Rightarrow> int \<Rightarrow> int" where
  "or_column column fallback =
     (case column of Some c \<Rightarrow> if c \<noteq> 0 then c else fallback | None \<Rightarrow> fallback)"

definition ViewColumn_Beside :: int where
  "ViewColumn_Beside = - 2"

definition ViewColumn_One :: int where
  "ViewColumn_One = 1"

section \<open>ArchDriftPanel\<close>

definition ARCHDRIFT_URL :: string where
  "ARCHDRIFT_URL = ''https://arch-drift.vercel.app/''"

definition panelKey :: string where
  "panelKey = ''archdrift-main''"

text \<open>
  \<^verbatim>\<open>ArchDriftPanel.createOrShow()\<close>. The map holds panel objects only, so
  \<^verbatim>\<open>panels.has(panelKey)\<close> with a truthy \<^verbatim>\<open>panels.get(panelKey)\<close> is the case \<open>Some\<close>.
\<close>

definition ArchDriftPanel_createOrShow :: "state \<Rightarrow> state" where
  "ArchDriftPanel_createOrShow s =
     (case panels s panelKey of
        Some existingPanel \<Rightarrow> host (Reveal existingPanel None) s
      | None \<Rightarrow>
          (let column = viewColumn s;
               (newPanel, s1) = createWebviewPanel ''archDriftViewer'' ''Architecture Drift''
                                  (or_column column ViewColumn_Beside) s;
               s2 = host (SetHtml newPanel (HtmlForUrl ARCHDRIFT_URL)) s1;
               s3 = host (Listen (OnDidDispose newPanel)) s2
           in s3\<lparr>panels := (panels s3)(panelKey \<mapsto> newPanel)\<rparr>))"

text \<open>The listener given to \<^verbatim>\<open>panel.onDidDispose\<close>: \<^verbatim>\<open>panels.delete(panelKey)\<close>.\<close>

definition ArchDriftPanel_onDidDispose :: "state \<Rightarrow> state" where
  "ArchDriftPanel_onDidDispose s = s\<lparr>panels := (panels s)(panelKey := None)\<rparr>"

section \<open>ObservabilityPanel\<close>

definition viewType :: string where
  "viewType = ''observabilityAgent''"

definition postMessage :: "ObservabilityPanel \<Rightarrow> message \<Rightarrow> state \<Rightarrow> state" where
  "postMessage this m s = host (PostMessage (panel this) m) s"

text \<open>
  The constructor: \<^verbatim>\<open>_update()\<close> sets the page, then the two listeners are registered,
  each subscription pushed onto \<^verbatim>\<open>_disposables\<close>.
\<close>

definition ObservabilityPanel_new :: "panel_id \<Rightarrow> string \<Rightarrow> state \<Rightarrow> ObservabilityPanel \<times> state" where
  "ObservabilityPanel_new p uri s =
     (let s1 = host (SetHtml p HtmlForWebview) s;
          s2 = host (Listen (OnDidDispose p)) s1;
          s3 = host (Listen (OnDidReceiveMessage p)) s2
      in (\<lparr>panel = p, extensionUri = uri,
           disposables = [OnDidDispose p, OnDidReceiveMessage p]\<rparr>, s3))"

definition ObservabilityPanel_createOrShow :: "string \<Rightarrow> state \<Rightarrow> state" where
  "ObservabilityPanel_createOrShow uri s =
     (let column = viewColumn s
      in case currentPanel s of
           Some cur \<Rightarrow> host (Reveal (panel cur) column) s
         | None \<Rightarrow>
             (let (newPanel, s1) = createWebviewPanel viewType ''Observability Agent''
                                     (or_column column ViewColumn_One) s;
                  (this, s2) = ObservabilityPanel_new newPanel uri s1
              in s2\<lparr>currentPanel := Some this\<rparr>))"

text \<open>
  The loop of \<^verbatim>\<open>dispose()\<close>: while \<^verbatim>\<open>_disposables\<close> is not empty, pop its last element
  and dispose it.
\<close>

function dispose_loop :: "disposable list \<Rightarrow> state \<Rightarrow> disposable list \<times> state" where
  "dispose_loop ds s =
     (if length ds \<noteq> 0
      then dispose_loop (butlast ds) (host (DisposeListener (last ds)) s)
      else (ds, s))"
  by pat_completeness auto
termination
  by (relation "measure (\<lambda>(ds, s). length ds)") auto

declare dispose_loop.simps [simp del]

text \<open>
  \<^verbatim>\<open>dispose()\<close>, the listener of the chat panel's \<^verbatim>\<open>onDidDispose\<close>. It returns the
  instance, its subscriptions drained, with the new state.
\<close>

definition ObservabilityPanel_dispose :: "ObservabilityPanel \<Rightarrow> state \<Rightarrow> ObservabilityPanel \<times> state" where
  "ObservabilityPanel_dispose this s =
     (let s1 = s\<lparr>currentPanel := None\<rparr>;
          s2 = host (DisposePanel (panel this)) s1;
          (ds, s3) = dispose_loop (disposables this) s2
      in (this\<lparr>disposables := ds\<rparr>, s3))"

text \<open>The command \<^verbatim>\<open>observabilityAgent.openChat\<close> registered by \<^verbatim>\<open>activate\<close>.\<close>

definition openChat :: "string \<Rightarrow> state \<Rightarrow> state" where
  "openChat uri s = ObservabilityPanel_createOrShow uri s"

section \<open>Reading the response\<close>

text \<open>
  \<^verbatim>\<open>data.name\<close> for the names \<^verbatim>\<open>handleAsk\<close> reads (\<^verbatim>\<open>mode\<close>, \<^verbatim>\<open>answer\<close>,
  \<^verbatim>\<open>score\<close>, \<^verbatim>\<open>trace\<close>, \<^verbatim>\<open>drift_data\<close>). Reading a property of \<^verbatim>\<open>null\<close> throws a
  TypeError; an object gives the member or \<^verbatim>\<open>undefined\<close> (\<open>None\<close>); a boolean, number,
  string or array has none of these names and gives \<^verbatim>\<open>undefined\<close>.
\<close>

definition property :: "json \<Rightarrow> string \<Rightarrow> js_error + json option" where
  "property data name =
     (case data of
        JNull \<Rightarrow> Inl (JsError ''TypeError''
                   (''Cannot read properties of null (reading '' @ [CHR 0x27] @ name @ [CHR 0x27] @ '')''))
      | JObj members \<Rightarrow> Inr (map_of members name)
      | _ \<Rightarrow> Inr None)"

text \<open>\<^verbatim>\<open>v ?? d\<close>: the default replaces \<^verbatim>\<open>undefined\<close> and \<^verbatim>\<open>null\<close> only.\<close>

definition nullish :: "json option \<Rightarrow> json \<Rightarrow> json" where
  "nullish v d = (case v of None \<Rightarrow> d | Some JNull \<Rightarrow> d | Some x \<Rightarrow> x)"

text \<open>
  \<^verbatim>\<open>data.mode === 'arch_drift' || (typeof data.answer === 'string' &&
  data.answer.toLowerCase().includes('archdrift ui'))\<close>; the right operand is evaluated
  only when the left one is false.
\<close>

definition isArchDrift :: "json \<Rightarrow> js_error + bool" where
  "isArchDrift data =
     (case property data ''mode'' of
        Inl err \<Rightarrow> Inl err
      | Inr mode \<Rightarrow>
          if mode = Some (JStr ''arch_drift'') then Inr True
          else (case property data ''answer'' of
                  Inl err \<Rightarrow> Inl err
                | Inr (Some (JStr answer)) \<Rightarrow>
                    Inr (includes_str (toLowerCase answer) ''archdrift ui'')
                | Inr _ \<Rightarrow> Inr False))"

text \<open>The object posted for a response that is no redirect.\<close>

definition answer_message :: "string \<Rightarrow> json \<Rightarrow> js_error + message" where
  "answer_message trimmedQuestion data =
     (case property data ''answer'' of Inl err \<Rightarrow> Inl err | Inr answer \<Rightarrow>
      case property data ''score'' of Inl err \<Rightarrow> Inl err | Inr score \<Rightarrow>
      case property data ''trace'' of Inl err \<Rightarrow> Inl err | Inr trace \<Rightarrow>
      case property data ''mode'' of Inl err \<Rightarrow> Inl err | Inr mode \<Rightarrow>
      case property data ''drift_data'' of Inl err \<Rightarrow> Inl err | Inr drift_data \<Rightarrow>
        Inr (AnswerMsg trimmedQuestion (nullish answer (JStr [])) (nullish score JNull)
               (nullish trace JNull) (nullish mode JNull) (nullish drift_data JNull)))"

section \<open>handleAsk\<close>

definition endpoint :: string where
  "endpoint = ''http://localhost:8000/ask''"

definition unreachable_prefix :: string where
  "unreachable_prefix =
     ''Could not reach the observability service at http://localhost:8000/ask. Is it running?''
     @ [CHR 0x0A, CHR 0x0A]"

text \<open>
  \<^verbatim>\<open>handleAsk\<close> is an \<^verbatim>\<open>async\<close> function with one \<^verbatim>\<open>await\<close>. Up to the \<^verbatim>\<open>await\<close>
  it trims the question, returns at once on an empty one, and otherwise posts the status
  message and sends the request: the result \<open>Some trimmedQuestion\<close> says that the call is
  suspended on \<^verbatim>\<open>postJson\<close>, \<open>None\<close> that it has returned.
\<close>

definition handleAsk_enter :: "ObservabilityPanel \<Rightarrow> string \<Rightarrow> state \<Rightarrow> string option \<times> state" where
  "handleAsk_enter this question s =
     (let trimmedQuestion = trim question
      in if trimmedQuestion = [] then (None, s)
         else (Some trimmedQuestion,
               host (HttpRequest endpoint (JObj [(''question'', JStr trimmedQuestion)]))
                 (postMessage this (StatusMsg ''Thinking...'') s)))"

text \<open>
  The rest of the \<^verbatim>\<open>try\<close> block, run when the network has answered: \<open>Inl\<close> is an
  exception thrown inside the block.
\<close>

definition try_block :: "json_parser \<Rightarrow> ObservabilityPanel \<Rightarrow> string \<Rightarrow> net_event \<Rightarrow> state \<Rightarrow> js_error + state" where
  "try_block parse this trimmedQuestion ev s =
     (case postJson parse ev of
        Inl err \<Rightarrow> Inl err
      | Inr data \<Rightarrow>
          (case isArchDrift data of
             Inl err \<Rightarrow> Inl err
           | Inr True \<Rightarrow> Inr (ArchDriftPanel_createOrShow s)
           | Inr False \<Rightarrow>
               (case answer_message trimmedQuestion data of
                  Inl err \<Rightarrow> Inl err
                | Inr m \<Rightarrow> Inr (postMessage this m s))))"

text \<open>
  The \<^verbatim>\<open>catch\<close> block. Whatever is thrown here is an error object, so
  \<^verbatim>\<open>err?.message ?? String(err)\<close> is its message.
\<close>

definition catch_block :: "ObservabilityPanel \<Rightarrow> string \<Rightarrow> js_error \<Rightarrow> state \<Rightarrow> state" where
  "catch_block this trimmedQuestion err s =
     postMessage this (ErrorMsg trimmedQuestion (unreachable_prefix @ message err)) s"

text \<open>
  The continuation after the \<^verbatim>\<open>await\<close>. The result is the promise of \<^verbatim>\<open>handleAsk\<close>:
  \<open>Inl\<close> would be an exception that leaves the function, \<open>Inr\<close> the state it returns in.
  No statement of the \<^verbatim>\<open>try\<close> block changes the state before one can throw, so the
  \<^verbatim>\<open>catch\<close> block starts from \<open>s\<close>.
\<close>

definition handleAsk_resume :: "json_parser \<Rightarrow> ObservabilityPanel \<Rightarrow> string \<Rightarrow> net_event \<Rightarrow> state \<Rightarrow> js_error + state" where
  "handleAsk_resume parse this trimmedQuestion ev s =
     (case try_block parse this trimmedQuestion ev s of
        Inr s' \<Rightarrow> Inr s'
      | Inl err \<Rightarrow> Inr (catch_block this trimmedQuestion err s))"

text \<open>One whole exchange: the call, and its continuation on the network's answer \<open>ev\<close>.\<close>

definition handleAsk :: "json_parser \<Rightarrow> ObservabilityPanel \<Rightarrow> string \<Rightarrow> net_event \<Rightarrow> state \<Rightarrow> js_error + state" where
  "handleAsk parse this question ev s =
     (case handleAsk_enter this question s of
        (None, s') \<Rightarrow> Inr s'
      | (Some trimmedQuestion, s') \<Rightarrow> handleAsk_resume parse this trimmedQuestion ev s')"

text \<open>
  The listener of \<^verbatim>\<open>webview.onDidReceiveMessage\<close>, up to its first \<^verbatim>\<open>await\<close>. A message
  from the page has a \<^verbatim>\<open>type\<close>, the \<^verbatim>\<open>text\<close> of a question, and a \<^verbatim>\<open>url\<close> that may be
  absent; an empty \<^verbatim>\<open>url\<close> is falsy.
\<close>

record webview_message =
  msg_type :: string
  msg_text :: string
  msg_url :: "string option"

definition onDidReceiveMessage :: "ObservabilityPanel \<Rightarrow> webview_message \<Rightarrow> state \<Rightarrow> string option \<times> state" where
  "onDidReceiveMessage this msg s =
     (if msg_type msg = ''ask'' then handleAsk_enter this (msg_text msg) s
      else if msg_type msg = ''openArchDrift'' then
        (case msg_url msg of
           Some url \<Rightarrow> if url \<noteq> [] then (None, host (OpenExternal url) s) else (None, s)
         | None \<Rightarrow> (None, s))
      else (None, s))"

section \<open>Notions used to state the properties\<close>

text \<open>The messages posted to the chat page among a sequence of calls, in order.\<close>

fun posted_of :: "host_call \<Rightarrow> message list" where
  "posted_of (PostMessage p m) = [m]"
| "posted_of c = []"

definition posted :: "host_call list \<Rightarrow> message list" where
  "posted cs = concat (map posted_of cs)"

text \<open>
  The classification rule as the specification words it, to be compared with what
  \<^verbatim>\<open>handleAsk\<close> does: a response whose \<^verbatim>\<open>mode\<close> is the literal \<^verbatim>\<open>arch_drift\<close> is a
  redirect; otherwise one whose \<^verbatim>\<open>answer\<close> is a string with \<^verbatim>\<open>archdrift ui\<close> somewhere
  in its lowercase form is a redirect; every other response is an answer.
\<close>

datatype classification = Redirect | Answer

definition member :: "json \<Rightarrow> string \<Rightarrow> json option" where
  "member response name = (case response of JObj members \<Rightarrow> map_of members name | _ \<Rightarrow> None)"

definition contains_substring :: "string \<Rightarrow> string \<Rightarrow> bool" where
  "contains_substring s sub = (\<exists>u v. s = u @ sub @ v)"

definition classify_spec :: "json \<Rightarrow> classification" where
  "classify_spec response =
     (if member response ''mode'' = Some (JStr ''arch_drift'') then Redirect
      else if (\<exists>a. member response ''answer'' = Some (JStr a)
                    \<and> contains_substring (toLowerCase a) ''archdrift ui'') then Redirect
      else Answer)"

text \<open>
  The state at activation: no panel registered, nothing created, no call made; \<open>editor\<close>
  is what the host reports as the active editor's column.
\<close>

definition initial :: "int option option \<Rightarrow> state" where
  "initial editor =
     \<lparr>panels = Map.empty, currentPanel = None, activeTextEditor = editor,
      created = 0, calls = []\<rparr>"

text \<open>
  The invariant of the two registries: a registered panel is one the host has created,
  and \<^verbatim>\<open>ArchDriftPanel.panels\<close> has no key but \<^verbatim>\<open>archdrift-main\<close>.
\<close>

definition registered :: "state \<Rightarrow> panel_id list" where
  "registered s =
     (case currentPanel s of Some this \<Rightarrow> [panel this] | None \<Rightarrow> [])
     @ (case panels s panelKey of Some p \<Rightarrow> [p] | None \<Rightarrow> [])"

definition wf :: "state \<Rightarrow> bool" where
  "wf s = (list_all (\<lambda>p. p < created s) (registered s) \<and> dom (panels s) \<subseteq> {panelKey})"

text \<open>Reading a decimal numeral back, to say that a text carries a status code.\<close>

definition read_decimal :: "string \<Rightarrow> nat" where
  "read_decimal cs = foldl (\<lambda>n c. 10 * n + (of_char c - 48)) 0 cs"

text \<open>
  A parser for the examples: it agrees with \<^verbatim>\<open>JSON.parse\<close> on the texts listed and
  rejects every other text. It stands in for the runtime's parser at concrete inputs only;
  the properties below are proved for every parser.
\<close>

definition JSON_parse_sample :: json_parser where
  \<open>JSON_parse_sample text =
     (if text = ''{"mode": "arch_drift"}''
        then Inr (JObj [(''mode'', JStr ''arch_drift'')])
      else if text = ''{"answer": "...", "score": 0.95}''
        then Inr (JObj [(''answer'', JStr ''...''), (''score'', JNum (Fract 19 20))])
      else if text = ''{"answer": "moved"}''
        then Inr (JObj [(''answer'', JStr ''moved'')])
      else if text = ''null'' then Inr JNull
      else if text = ''<html></html>''
        then Inl (JsError ''SyntaxError'' ''Unexpected token < in JSON at position 0'')
      else if text = [] then Inl (JsError ''SyntaxError'' ''Unexpected end of JSON input'')
      else Inl (JsError ''SyntaxError'' ''Unexpected token''))\<close>

text \<open>
  A running example: the chat panel opened once from the initial state, with no active
  editor, and the instance that \<^verbatim>\<open>currentPanel\<close> then holds.
\<close>

definition chat_panel :: ObservabilityPanel where
  "chat_panel =
     \<lparr>panel = 0, extensionUri = ''file:///extension'',
      disposables = [OnDidDispose 0, OnDidReceiveMessage 0]\<rparr>"

definition chat_open :: state where
  "chat_open = openChat ''file:///extension'' (initial None)"

text \<open>
  The states the extension can reach, over-approximated: the host may change the active
  editor, run the command, close either panel, deliver any message to any instance, and
  settle any pending request with any answer of the network.
\<close>

inductive reachable :: "state \<Rightarrow> bool" where
  start: "reachable (initial editor)"
| editor_changed: "reachable s \<Longrightarrow> reachable (s\<lparr>activeTextEditor := editor\<rparr>)"
| command: "reachable s \<Longrightarrow> reachable (openChat uri s)"
| chat_closed: "reachable s \<Longrightarrow> currentPanel s = Some this
                \<Longrightarrow> reachable (snd (ObservabilityPanel_dispose this s))"
| drift_closed: "reachable s \<Longrightarrow> panels s panelKey = Some p
                \<Longrightarrow> reachable (ArchDriftPanel_onDidDispose s)"
| received: "reachable s \<Longrightarrow> reachable (snd (onDidReceiveMessage this msg s))"
| settled: "reachable s \<Longrightarrow> handleAsk_resume parse this q ev s = Inr s' \<Longrightarrow> reachable s'"

text \<open>
  The example with the visualization panel opened as well.
\<close>

definition both_open :: state where
  "both_open = ArchDriftPanel_createOrShow chat_open"

section \<open>Facts about strings\<close>

text \<open>
  \<^verbatim>\<open>includes\<close> finds exactly the substrings, and the decimal text of a number reads back
  as that number.
\<close>

lemma startsWith_iff: "startsWith s sub \<longleftrightarrow> (\<exists>v. s = sub @ v)"
  by (induction s sub rule: startsWith.induct) auto

lemma includes_str_iff: "includes_str s sub \<longleftrightarrow> contains_substring s sub"
  unfolding contains_substring_def
proof (induction s)
  case Nil
  then show ?case by (simp add: startsWith_iff)
next
  case (Cons x xs)
  show ?case
  proof
    assume "includes_str (x # xs) sub"
    then consider "startsWith (x # xs) sub" | "includes_str xs sub" by auto
    then show "\<exists>u v. x # xs = u @ sub @ v"
    proof cases
      case 1
      then obtain v where "x # xs = sub @ v" by (auto simp: startsWith_iff)
      then have "x # xs = [] @ sub @ v" by simp
      then show ?thesis by blast
    next
      case 2
      then obtain u v where "xs = u @ sub @ v" using Cons.IH by blast
      then have "x # xs = (x # u) @ sub @ v" by simp
      then show ?thesis by blast
    qed
  next
    assume "\<exists>u v. x # xs = u @ sub @ v"
    then obtain u v where uv: "x # xs = u @ sub @ v" by blast
    show "includes_str (x # xs) sub"
    proof (cases u)
      case Nil
      with uv have "startsWith (x # xs) sub" by (auto simp: startsWith_iff)
      then show ?thesis by simp
    next
      case (Cons y ys)
      with uv have "xs = ys @ sub @ v" by simp
      then have "includes_str xs sub" using Cons.IH by blast
      then show ?thesis by simp
    qed
  qed
qed

lemma read_decimal_snoc: "read_decimal (cs @ [c]) = 10 * read_decimal cs + (of_char c - 48)"
  by (simp add: read_decimal_def)

lemma of_char_digit: "d < 10 \<Longrightarrow> of_char (digit d) = 48 + d"
  by (simp add: digit_def)

lemma read_decimal_toString_nat: "read_decimal (toString_nat n) = n"
proof (induction n rule: toString_nat.induct)
  case (1 n)
  show ?case
  proof (cases "n < 10")
    case True
    then show ?thesis
      by (subst toString_nat.simps) (simp add: read_decimal_def of_char_digit)
  next
    case False
    then have "read_decimal (toString_nat (n div 10)) = n div 10"
      using "1.IH" by simp
    then show ?thesis
      using False
      by (subst toString_nat.simps) (simp add: read_decimal_snoc of_char_digit)
  qed
qed

section \<open>The host calls and the posted messages\<close>

lemma host_fields [simp]:
  "calls (host c s) = calls s @ [c]"
  "panels (host c s) = panels s"
  "currentPanel (host c s) = currentPanel s"
  "created (host c s) = created s"
  "activeTextEditor (host c s) = activeTextEditor s"
  by (simp_all add: host_def)

lemma viewColumn_host [simp]: "viewColumn (host c s) = viewColumn s"
  by (simp add: viewColumn_def)

lemma posted_append [simp]: "posted (xs @ ys) = posted xs @ posted ys"
  by (simp add: posted_def)

lemma posted_Nil [simp]: "posted [] = []"
  by (simp add: posted_def)

lemma posted_Cons [simp]: "posted (c # cs) = posted_of c @ posted cs"
  by (simp add: posted_def)

section \<open>Facts about postJson\<close>

lemma on_end_status_error:
  "400 \<le> n \<Longrightarrow>
   on_end parse (Some n) data = Inl (JsError ''Error'' (''HTTP error! status: '' @ toString_nat n))"
  by (simp add: on_end_def)

lemma on_end_below_400:
  "n < 400 \<Longrightarrow> on_end parse (Some n) data = (if data \<noteq> [] then parse data else Inr (JObj []))"
  by (simp add: on_end_def)

section \<open>Facts about the two registries\<close>

lemma ArchDriftPanel_createOrShow_calls:
  "calls (ArchDriftPanel_createOrShow s) = calls s @
     (case panels s panelKey of
        Some p \<Rightarrow> [Reveal p None]
      | None \<Rightarrow> [CreateWebviewPanel (created s) ''archDriftViewer'' ''Architecture Drift''
                    (or_column (viewColumn s) ViewColumn_Beside),
                  SetHtml (created s) (HtmlForUrl ARCHDRIFT_URL),
                  Listen (OnDidDispose (created s))])"
  by (simp add: ArchDriftPanel_createOrShow_def createWebviewPanel_def Let_def split: option.splits)

lemma ArchDriftPanel_createOrShow_panels:
  "panels (ArchDriftPanel_createOrShow s) =
     (case panels s panelKey of Some p \<Rightarrow> panels s | None \<Rightarrow> (panels s)(panelKey \<mapsto> created s))"
  by (simp add: ArchDriftPanel_createOrShow_def createWebviewPanel_def Let_def split: option.splits)

lemma ArchDriftPanel_createOrShow_created:
  "created (ArchDriftPanel_createOrShow s) =
     (case panels s panelKey of Some p \<Rightarrow> created s | None \<Rightarrow> Suc (created s))"
  by (simp add: ArchDriftPanel_createOrShow_def createWebviewPanel_def Let_def split: option.splits)

lemma ArchDriftPanel_createOrShow_currentPanel:
  "currentPanel (ArchDriftPanel_createOrShow s) = currentPanel s"
  by (simp add: ArchDriftPanel_createOrShow_def createWebviewPanel_def Let_def split: option.splits)

lemma posted_ArchDriftPanel_createOrShow:
  "posted (calls (ArchDriftPanel_createOrShow s)) = posted (calls s)"
  by (simp add: ArchDriftPanel_createOrShow_calls split: option.splits)

lemma ObservabilityPanel_createOrShow_existing:
  "currentPanel s = Some cur \<Longrightarrow>
   ObservabilityPanel_createOrShow uri s = host (Reveal (panel cur) (viewColumn s)) s"
  by (simp add: ObservabilityPanel_createOrShow_def)

lemma ObservabilityPanel_createOrShow_new:
  "currentPanel s = None \<Longrightarrow>
   ObservabilityPanel_createOrShow uri s =
     s\<lparr>currentPanel := Some \<lparr>panel = created s, extensionUri = uri,
                             disposables = [OnDidDispose (created s), OnDidReceiveMessage (created s)]\<rparr>,
       created := Suc (created s),
       calls := calls s @ [CreateWebviewPanel (created s) viewType ''Observability Agent''
                             (or_column (viewColumn s) ViewColumn_One),
                           SetHtml (created s) HtmlForWebview,
                           Listen (OnDidDispose (created s)),
                           Listen (OnDidReceiveMessage (created s))]\<rparr>"
  by (simp add: ObservabilityPanel_createOrShow_def createWebviewPanel_def
        ObservabilityPanel_new_def host_def Let_def)

lemma dispose_loop_eq:
  "dispose_loop ds s = ([], s\<lparr>calls := calls s @ map DisposeListener (rev ds)\<rparr>)"
proof (induction ds s rule: dispose_loop.induct)
  case (1 ds s)
  show ?case
  proof (cases "ds = []")
    case True
    then show ?thesis by (simp add: dispose_loop.simps)
  next
    case False
    then have ne: "length ds \<noteq> 0" by simp
    have "ds = butlast ds @ [last ds]"
      using False by simp
    then have r: "rev ds = last ds # rev (butlast ds)"
      by (metis rev.simps(2) rev_append rev_rev_ident append_Cons append_Nil rev_singleton_conv)
    show ?thesis
      using "1.IH"[OF ne] False
      by (subst dispose_loop.simps) (simp add: host_def r)
  qed
qed

lemma ObservabilityPanel_dispose_eq:
  "ObservabilityPanel_dispose this s =
     (this\<lparr>disposables := []\<rparr>,
      s\<lparr>currentPanel := None,
        calls := calls s @ DisposePanel (panel this) # map DisposeListener (rev (disposables this))\<rparr>)"
  by (simp add: ObservabilityPanel_dispose_def dispose_loop_eq host_def)

section \<open>Facts about handleAsk\<close>

text \<open>
  A response other than \<^verbatim>\<open>null\<close> is read without an exception, and the test
  \<^verbatim>\<open>isArchDrift\<close> decides the classification of the specification.
\<close>

lemma property_member: "data \<noteq> JNull \<Longrightarrow> property data name = Inr (member data name)"
  by (cases data) (simp_all add: property_def member_def)

lemma isArchDrift_classify:
  assumes "data \<noteq> JNull"
  shows "isArchDrift data = Inr (classify_spec data = Redirect)"
proof (cases "member data ''mode'' = Some (JStr ''arch_drift'')")
  case True
  then show ?thesis
    using assms by (simp add: isArchDrift_def classify_spec_def property_member)
next
  case False
  then show ?thesis
    using assms
    by (auto simp: isArchDrift_def classify_spec_def property_member includes_str_iff
             split: option.splits json.splits)
qed

lemma classify_spec_compute:
  "classify_spec response =
     (if member response ''mode'' = Some (JStr ''arch_drift'') then Redirect
      else case member response ''answer'' of
             Some (JStr a) \<Rightarrow> if includes_str (toLowerCase a) ''archdrift ui'' then Redirect else Answer
           | _ \<Rightarrow> Answer)"
  by (auto simp: classify_spec_def includes_str_iff split: option.splits json.splits)

lemma answer_message_member:
  "data \<noteq> JNull \<Longrightarrow>
   answer_message q data =
     Inr (AnswerMsg q (nullish (member data ''answer'') (JStr [])) (nullish (member data ''score'') JNull)
            (nullish (member data ''trace'') JNull) (nullish (member data ''mode'') JNull)
            (nullish (member data ''drift_data'') JNull))"
  by (simp add: answer_message_def property_member)

lemma handleAsk_resume_resolved:
  assumes "postJson parse ev = Inr data" and "data \<noteq> JNull"
  shows "handleAsk_resume parse this q ev s =
           Inr (case classify_spec data of
                  Redirect \<Rightarrow> ArchDriftPanel_createOrShow s
                | Answer \<Rightarrow>
                    postMessage this
                      (AnswerMsg q (nullish (member data ''answer'') (JStr []))
                         (nullish (member data ''score'') JNull)
                         (nullish (member data ''trace'') JNull)
                         (nullish (member data ''mode'') JNull)
                         (nullish (member data ''drift_data'') JNull)) s)"
  using assms
  by (cases "classify_spec data")
     (simp_all add: handleAsk_resume_def try_block_def isArchDrift_classify answer_message_member)

lemma handleAsk_resume_rejected:
  assumes "postJson parse ev = Inl err"
  shows "handleAsk_resume parse this q ev s = Inr (catch_block this q err s)"
  using assms by (simp add: handleAsk_resume_def try_block_def)

text \<open>
  The response \<^verbatim>\<open>null\<close> is no object: reading \<^verbatim>\<open>data.mode\<close> throws inside the
  \<^verbatim>\<open>try\<close> block, and the exchange ends with an error message.
\<close>

lemma handleAsk_resume_null:
  assumes "postJson parse ev = Inr JNull"
  shows "handleAsk_resume parse this q ev s =
     Inr (catch_block this q (JsError ''TypeError'' (''Cannot read properties of null (reading '' @ [CHR 0x27] @ ''mode'' @ [CHR 0x27] @ '')'')) s)"
  using assms by (simp add: handleAsk_resume_def try_block_def isArchDrift_def property_def)

lemma handleAsk_enter_nonempty:
  assumes "trim question \<noteq> []"
  shows "handleAsk_enter this question s =
           (Some (trim question),
            s\<lparr>calls := calls s @ [PostMessage (panel this) (StatusMsg ''Thinking...''),
                                   HttpRequest endpoint (JObj [(''question'', JStr (trim question))])]\<rparr>)"
  using assms by (simp add: handleAsk_enter_def Let_def postMessage_def host_def)

lemma handleAsk_enter_empty:
  assumes "trim question = []"
  shows "handleAsk_enter this question s = (None, s)"
  using assms by (simp add: handleAsk_enter_def)

text \<open>
  Whatever the network answers and whatever state the continuation finds, it returns
  normally and posts at most one message, an answer or an error for its question.
\<close>

lemma handleAsk_resume_posted:
  "\<exists>s' rest. handleAsk_resume parse this q ev s = Inr s'
      \<and> posted (calls s') = posted (calls s) @ rest
      \<and> (rest = [] \<or> (\<exists>a sc tr md dd. rest = [AnswerMsg q a sc tr md dd]) \<or> (\<exists>m. rest = [ErrorMsg q m]))"
proof (cases "postJson parse ev")
  case (Inl err)
  then show ?thesis
    by (simp add: handleAsk_resume_rejected catch_block_def postMessage_def)
next
  case (Inr data)
  show ?thesis
  proof (cases "data = JNull")
    case True
    with Inr show ?thesis
      by (simp add: handleAsk_resume_null catch_block_def postMessage_def)
  next
    case False
    show ?thesis
    proof (cases "classify_spec data")
      case Redirect
      then show ?thesis
        by (simp add: handleAsk_resume_resolved[OF Inr False] posted_ArchDriftPanel_createOrShow)
    next
      case Answer
      then show ?thesis
        by (simp add: handleAsk_resume_resolved[OF Inr False] postMessage_def)
    qed
  qed
qed

section \<open>The invariant of the registries\<close>

lemma wf_initial: "wf (initial editor)"
  by (simp add: wf_def initial_def registered_def)

lemma registered_host [simp]: "registered (host c s) = registered s"
  by (simp add: registered_def)

lemma wf_host: "wf s \<Longrightarrow> wf (host c s)"
  by (simp add: wf_def)

lemma wf_calls_update: "wf s \<Longrightarrow> wf (s\<lparr>calls := cs\<rparr>)"
  by (simp add: wf_def registered_def)

lemma wf_editor: "wf s \<Longrightarrow> wf (s\<lparr>activeTextEditor := editor\<rparr>)"
  by (simp add: wf_def registered_def)

lemma wf_current_below: "wf s \<Longrightarrow> currentPanel s = Some this \<Longrightarrow> panel this < created s"
  by (simp add: wf_def registered_def)

lemma wf_drift_below: "wf s \<Longrightarrow> panels s panelKey = Some p \<Longrightarrow> p < created s"
  by (simp add: wf_def registered_def split: option.splits)

lemma wf_ArchDriftPanel_createOrShow: "wf s \<Longrightarrow> wf (ArchDriftPanel_createOrShow s)"
  by (auto simp: wf_def registered_def ArchDriftPanel_createOrShow_def createWebviewPanel_def
        Let_def less_Suc_eq split: option.splits)

lemma wf_ArchDriftPanel_onDidDispose: "wf s \<Longrightarrow> wf (ArchDriftPanel_onDidDispose s)"
  by (auto simp: wf_def registered_def ArchDriftPanel_onDidDispose_def split: option.splits)

lemma wf_ObservabilityPanel_createOrShow: "wf s \<Longrightarrow> wf (ObservabilityPanel_createOrShow uri s)"
proof (cases "currentPanel s")
  case None
  assume "wf s"
  then show ?thesis
    by (auto simp: ObservabilityPanel_createOrShow_new[OF None] wf_def registered_def
          less_Suc_eq split: option.splits)
next
  case (Some cur)
  assume "wf s"
  then show ?thesis
    by (simp add: ObservabilityPanel_createOrShow_existing[OF Some] wf_host)
qed

lemma wf_ObservabilityPanel_dispose: "wf s \<Longrightarrow> wf (snd (ObservabilityPanel_dispose this s))"
  by (auto simp: ObservabilityPanel_dispose_eq wf_def registered_def split: option.splits)

lemma wf_handleAsk_enter: "wf s \<Longrightarrow> wf (snd (handleAsk_enter this question s))"
  by (simp add: handleAsk_enter_def Let_def postMessage_def wf_host)

lemma wf_onDidReceiveMessage: "wf s \<Longrightarrow> wf (snd (onDidReceiveMessage this msg s))"
  by (simp add: onDidReceiveMessage_def wf_handleAsk_enter wf_host split: option.splits)

lemma wf_handleAsk_resume:
  assumes "wf s" and "handleAsk_resume parse this q ev s = Inr s'"
  shows "wf s'"
proof (cases "try_block parse this q ev s")
  case (Inl err)
  then show ?thesis
    using assms by (auto simp: handleAsk_resume_def catch_block_def postMessage_def wf_host)
next
  case (Inr s'')
  then have "s'' = s'"
    using assms(2) by (simp add: handleAsk_resume_def)
  with Inr show ?thesis
    using assms(1)
    by (auto simp: try_block_def postMessage_def wf_host wf_ArchDriftPanel_createOrShow
          split: sum.splits bool.splits if_splits)
qed

lemma reachable_wf: "reachable s \<Longrightarrow> wf s"
proof (induction rule: reachable.induct)
  case (start editor)
  show ?case by (rule wf_initial)
next
  case (editor_changed s editor)
  then show ?case by (simp add: wf_editor)
next
  case (command s uri)
  then show ?case by (simp add: openChat_def wf_ObservabilityPanel_createOrShow)
next
  case (chat_closed s this)
  then show ?case by (simp add: wf_ObservabilityPanel_dispose)
next
  case (drift_closed s p)
  then show ?case by (simp add: wf_ArchDriftPanel_onDidDispose)
next
  case (received s this msg)
  then show ?case by (simp add: wf_onDidReceiveMessage)
next
  case (settled s parse this q ev s')
  then show ?case by (blast intro: wf_handleAsk_resume)
qed

section \<open>The examples\<close>

lemma chat_open_eq:
  "chat_open =
     \<lparr>panels = Map.empty, currentPanel = Some chat_panel, activeTextEditor = None, created = 1,
      calls = [CreateWebviewPanel 0 ''observabilityAgent'' ''Observability Agent'' 1,
               SetHtml 0 HtmlForWebview, Listen (OnDidDispose 0), Listen (OnDidReceiveMessage 0)]\<rparr>"
  by (simp add: chat_open_def openChat_def ObservabilityPanel_createOrShow_def initial_def
        viewColumn_def createWebviewPanel_def ObservabilityPanel_new_def host_def chat_panel_def
        or_column_def ViewColumn_One_def viewType_def Let_def)

lemma both_open_eq:
  "both_open =
     \<lparr>panels = [panelKey \<mapsto> 1], currentPanel = Some chat_panel, activeTextEditor = None, created = 2,
      calls = [CreateWebviewPanel 0 ''observabilityAgent'' ''Observability Agent'' 1,
               SetHtml 0 HtmlForWebview, Listen (OnDidDispose 0), Listen (OnDidReceiveMessage 0),
               CreateWebviewPanel 1 ''archDriftViewer'' ''Architecture Drift'' (- 2),
               SetHtml 1 (HtmlForUrl ''https://arch-drift.vercel.app/''), Listen (OnDidDispose 1)]\<rparr>"
  by (simp add: both_open_def chat_open_eq ArchDriftPanel_createOrShow_def createWebviewPanel_def
        host_def viewColumn_def or_column_def ViewColumn_Beside_def ARCHDRIFT_URL_def Let_def)

lemma wf_both_open: "wf both_open"
  unfolding both_open_def chat_open_def openChat_def
  by (intro wf_ArchDriftPanel_createOrShow wf_ObservabilityPanel_createOrShow wf_initial)

lemma trim_example: "trim ''Why is my app slow?'' = ''Why is my app slow?''"
  by (simp add: trim_def isWhiteSpace_def)

lemma trim_blank: "trim ''   '' = []"
  by (simp add: trim_def isWhiteSpace_def)

lemma postJson_sample_answer:
  \<open>postJson JSON_parse_sample (ResponseEnd (Some 200) [''{"answer": "...", "score": 0.95}''])
     = Inr (JObj [(''answer'', JStr ''...''), (''score'', JNum (Fract 19 20))])\<close>
  by (simp add: postJson_def on_end_def on_data_def JSON_parse_sample_def)

lemma postJson_sample_redirect:
  \<open>postJson JSON_parse_sample (ResponseEnd (Some 200) [''{"mode": '', ''"arch_drift"}''])
     = Inr (JObj [(''mode'', JStr ''arch_drift'')])\<close>
  by (simp add: postJson_def on_end_def on_data_def JSON_parse_sample_def)

text \<open>
  The test of \<^verbatim>\<open>handleAsk\<close> on some responses: the link text in any case of letters, the
  mode with an answer that is no string, another mode, and a response that is a string.
\<close>

lemma link_text_lowercase:
  "toLowerCase ''Open the ArchDrift UI'' = ''open the archdrift ui''"
  by code_simp

lemma link_text_redirects:
  "isArchDrift (JObj [(''answer'', JStr ''Open the ArchDrift UI to see the drift.'')]) = Inr True"
  by code_simp

lemma mode_wins:
  "isArchDrift (JObj [(''mode'', JStr ''arch_drift''), (''answer'', JNum 3)]) = Inr True"
  by code_simp

lemma other_mode_is_answer:
  "isArchDrift (JObj [(''mode'', JStr ''chat''), (''answer'', JStr ''All services are healthy.'')]) = Inr False"
  by code_simp

lemma primitive_is_answer:
  "isArchDrift (JStr ''archdrift ui'') = Inr False"
  by code_simp

text \<open>
  Scenario A of the specification: the status, then the answer with its score.
\<close>

lemma scenario_A:
  \<open>\<exists>s'. handleAsk JSON_parse_sample chat_panel ''Why is my app slow?''
           (ResponseEnd (Some 200) [''{"answer": "...", "score": 0.95}'']) chat_open = Inr s'
      \<and> posted (calls s')
          = [StatusMsg ''Thinking...'',
             AnswerMsg ''Why is my app slow?'' (JStr ''...'') (JNum (Fract 19 20)) JNull JNull JNull]\<close>
proof -
  have c: "classify_spec (JObj [(''answer'', JStr ''...''), (''score'', JNum (Fract 19 20))]) = Answer"
    by (simp add: classify_spec_compute member_def toLowerCase_def toLowerCase_char_def)
  have t: "trim ''Why is my app slow?'' \<noteq> []"
    by (simp add: trim_example)
  show ?thesis
    by (simp add: handleAsk_def handleAsk_enter_nonempty[OF t] trim_example
          handleAsk_resume_resolved[OF postJson_sample_answer] c postMessage_def
          chat_open_eq member_def nullish_def)
qed

section \<open>The properties of the specification\<close>

subsection \<open>C1\<close>

text \<open>
  Claim C1. A response that \<^verbatim>\<open>postJson\<close> resolved with, other than \<^verbatim>\<open>null\<close>, is
  handled by the precedence of the specification: the test \<^verbatim>\<open>isArchDrift\<close> holds exactly
  for the responses classified as redirects (\<^verbatim>\<open>mode\<close> is \<^verbatim>\<open>arch_drift\<close> whatever the
  answer is, or else \<^verbatim>\<open>answer\<close> is a string whose lowercase form contains
  \<^verbatim>\<open>archdrift ui\<close>); a redirect runs \<^verbatim>\<open>ArchDriftPanel.createOrShow\<close>, and every other
  response is posted as an answer with its fields carried through.
\<close>

theorem classification_precedence:
  assumes "postJson parse ev = Inr data" and "data \<noteq> JNull"
  shows "isArchDrift data = Inr (classify_spec data = Redirect)
       \<and> handleAsk_resume parse this q ev s =
           Inr (case classify_spec data of
                  Redirect \<Rightarrow> ArchDriftPanel_createOrShow s
                | Answer \<Rightarrow>
                    postMessage this
                      (AnswerMsg q (nullish (member data ''answer'') (JStr []))
                         (nullish (member data ''score'') JNull)
                         (nullish (member data ''trace'') JNull)
                         (nullish (member data ''mode'') JNull)
                         (nullish (member data ''drift_data'') JNull)) s)"
  using assms by (simp add: isArchDrift_classify handleAsk_resume_resolved)

theorem classification_precedence_witness:
  \<open>postJson JSON_parse_sample (ResponseEnd (Some 200) [''{"answer": "...", "score": 0.95}''])
     = Inr (JObj [(''answer'', JStr ''...''), (''score'', JNum (Fract 19 20))])
   \<and> JObj [(''answer'', JStr ''...''), (''score'', JNum (Fract 19 20))] \<noteq> JNull
   \<and> isArchDrift (JObj [(''answer'', JStr ''...''), (''score'', JNum (Fract 19 20))]) = Inr False
   \<and> handleAsk_resume JSON_parse_sample chat_panel ''Why is my app slow?''
        (ResponseEnd (Some 200) [''{"answer": "...", "score": 0.95}'']) chat_open
      = Inr (postMessage chat_panel
               (AnswerMsg ''Why is my app slow?'' (JStr ''...'') (JNum (Fract 19 20)) JNull JNull JNull)
               chat_open)\<close>
proof -
  have c: "classify_spec (JObj [(''answer'', JStr ''...''), (''score'', JNum (Fract 19 20))]) = Answer"
    by (simp add: classify_spec_compute member_def toLowerCase_def toLowerCase_char_def)
  show ?thesis
    using classification_precedence[OF postJson_sample_answer, of chat_panel "''Why is my app slow?''" chat_open]
    by (simp add: c postJson_sample_answer member_def nullish_def)
qed

subsection \<open>C2\<close>

text \<open>
  Claim C2. In an exchange with a non-empty question whose response is classified as a
  redirect, the calls are the status message, the request, and then either the reveal of
  the registered visualization panel or the creation of one; afterwards a visualization
  panel is registered, and the only message posted to the chat page is the status: no
  answer and no error.
\<close>

theorem redirect_reveals_panel_without_chat_message:
  assumes "trim question \<noteq> []" and "postJson parse ev = Inr data"
    and "classify_spec data = Redirect"
  shows "\<exists>s'. handleAsk parse this question ev s = Inr s'
      \<and> calls s' = calls s
           @ [PostMessage (panel this) (StatusMsg ''Thinking...''),
              HttpRequest endpoint (JObj [(''question'', JStr (trim question))])]
           @ (case panels s panelKey of
                Some p \<Rightarrow> [Reveal p None]
              | None \<Rightarrow> [CreateWebviewPanel (created s) ''archDriftViewer'' ''Architecture Drift''
                            (or_column (viewColumn s) ViewColumn_Beside),
                          SetHtml (created s) (HtmlForUrl ARCHDRIFT_URL),
                          Listen (OnDidDispose (created s))])
      \<and> panels s' panelKey = Some (case panels s panelKey of Some p \<Rightarrow> p | None \<Rightarrow> created s)
      \<and> posted (calls s') = posted (calls s) @ [StatusMsg ''Thinking...'']"
proof -
  have nn: "data \<noteq> JNull"
    using assms(3) by (auto simp: classify_spec_def member_def)
  let ?s1 = "s\<lparr>calls := calls s @ [PostMessage (panel this) (StatusMsg ''Thinking...''),
                 HttpRequest endpoint (JObj [(''question'', JStr (trim question))])]\<rparr>"
  have "handleAsk parse this question ev s = Inr (ArchDriftPanel_createOrShow ?s1)"
    using assms(3)
    by (simp add: handleAsk_def handleAsk_enter_nonempty[OF assms(1)]
          handleAsk_resume_resolved[OF assms(2) nn])
  moreover have "viewColumn ?s1 = viewColumn s"
    by (simp add: viewColumn_def)
  ultimately show ?thesis
    by (simp add: ArchDriftPanel_createOrShow_calls ArchDriftPanel_createOrShow_panels
          split: option.splits)
qed

theorem redirect_reveals_panel_without_chat_message_witness:
  \<open>trim ''Why is my app slow?'' \<noteq> []
   \<and> postJson JSON_parse_sample (ResponseEnd (Some 200) [''{"mode": '', ''"arch_drift"}''])
        = Inr (JObj [(''mode'', JStr ''arch_drift'')])
   \<and> classify_spec (JObj [(''mode'', JStr ''arch_drift'')]) = Redirect
   \<and> (\<exists>s'. handleAsk JSON_parse_sample chat_panel ''Why is my app slow?''
               (ResponseEnd (Some 200) [''{"mode": '', ''"arch_drift"}'']) chat_open = Inr s'
          \<and> calls s' = calls chat_open
               @ [PostMessage 0 (StatusMsg ''Thinking...''),
                  HttpRequest ''http://localhost:8000/ask'' (JObj [(''question'', JStr ''Why is my app slow?'')]),
                  CreateWebviewPanel 1 ''archDriftViewer'' ''Architecture Drift'' (- 2),
                  SetHtml 1 (HtmlForUrl ''https://arch-drift.vercel.app/''),
                  Listen (OnDidDispose 1)]
          \<and> panels s' ''archdrift-main'' = Some 1
          \<and> posted (calls s') = [StatusMsg ''Thinking...''])\<close>
proof -
  have t: "trim ''Why is my app slow?'' \<noteq> []"
    by (simp add: trim_example)
  have c: "classify_spec (JObj [(''mode'', JStr ''arch_drift'')]) = Redirect"
    by (simp add: classify_spec_compute member_def)
  show ?thesis
    using redirect_reveals_panel_without_chat_message[OF t postJson_sample_redirect c, of chat_panel chat_open]
    by (simp add: t c postJson_sample_redirect trim_example chat_open_eq chat_panel_def panelKey_def
          endpoint_def viewColumn_def or_column_def ViewColumn_Beside_def ARCHDRIFT_URL_def)
qed

subsection \<open>C3\<close>

text \<open>
  Claim C3. A question that trims to the empty string is dropped: \<^verbatim>\<open>handleAsk\<close> returns
  at once in the state it was called in, so no message is posted and no request is sent,
  whatever the network would have answered; the same holds for the \<^verbatim>\<open>ask\<close> message that
  carries the question.
\<close>

theorem empty_query_dropped:
  assumes "trim question = []"
  shows "handleAsk_enter this question s = (None, s)
       \<and> handleAsk parse this question ev s = Inr s
       \<and> onDidReceiveMessage this \<lparr>msg_type = ''ask'', msg_text = question, msg_url = url\<rparr> s = (None, s)"
  using assms by (simp add: handleAsk_def onDidReceiveMessage_def handleAsk_enter_empty)

theorem empty_query_dropped_witness:
  "trim ''   '' = []
   \<and> handleAsk_enter chat_panel ''   '' chat_open = (None, chat_open)
   \<and> handleAsk JSON_parse_sample chat_panel ''   '' (ResponseEnd (Some 200) []) chat_open = Inr chat_open
   \<and> onDidReceiveMessage chat_panel \<lparr>msg_type = ''ask'', msg_text = ''   '', msg_url = None\<rparr> chat_open
       = (None, chat_open)"
  using empty_query_dropped[OF trim_blank, of chat_panel chat_open JSON_parse_sample "ResponseEnd (Some 200) []" None]
  by (simp add: trim_blank)

subsection \<open>C4\<close>

text \<open>
  Claim C4. In an exchange with a non-empty question the messages posted are the status
  \<^verbatim>\<open>Thinking...\<close> first, followed by nothing (a redirect), by one answer or by one error
  for the trimmed question: exactly one status, before the terminal message.
\<close>

theorem one_status_before_terminal:
  assumes "trim question \<noteq> []"
  shows "\<exists>s' rest. handleAsk parse this question ev s = Inr s'
      \<and> posted (calls s') = posted (calls s) @ StatusMsg ''Thinking...'' # rest
      \<and> (rest = [] \<or> (\<exists>a sc tr md dd. rest = [AnswerMsg (trim question) a sc tr md dd])
            \<or> (\<exists>m. rest = [ErrorMsg (trim question) m]))"
proof -
  let ?s1 = "s\<lparr>calls := calls s @ [PostMessage (panel this) (StatusMsg ''Thinking...''),
                 HttpRequest endpoint (JObj [(''question'', JStr (trim question))])]\<rparr>"
  obtain s' rest where r: "handleAsk_resume parse this (trim question) ev ?s1 = Inr s'"
      "posted (calls s') = posted (calls ?s1) @ rest"
      "rest = [] \<or> (\<exists>a sc tr md dd. rest = [AnswerMsg (trim question) a sc tr md dd])
         \<or> (\<exists>m. rest = [ErrorMsg (trim question) m])"
    using handleAsk_resume_posted[of parse this "trim question" ev ?s1] by blast
  have "handleAsk parse this question ev s = Inr s'"
    using r(1) by (simp add: handleAsk_def handleAsk_enter_nonempty[OF assms])
  moreover have "posted (calls s') = posted (calls s) @ StatusMsg ''Thinking...'' # rest"
    using r(2) by simp
  ultimately show ?thesis using r(3) by blast
qed

theorem one_status_before_terminal_witness:
  "trim ''Why is my app slow?'' \<noteq> []
   \<and> (\<exists>s' rest. handleAsk JSON_parse_sample chat_panel ''Why is my app slow?''
                   (RequestError (JsError ''Error'' ''connect ECONNREFUSED 127.0.0.1:8000'')) chat_open = Inr s'
        \<and> posted (calls s') = posted (calls chat_open) @ StatusMsg ''Thinking...'' # rest
        \<and> (rest = [] \<or> (\<exists>a sc tr md dd. rest = [AnswerMsg (trim ''Why is my app slow?'') a sc tr md dd])
              \<or> (\<exists>m. rest = [ErrorMsg (trim ''Why is my app slow?'') m])))"
proof -
  have t: "trim ''Why is my app slow?'' \<noteq> []"
    by (simp add: trim_example)
  show ?thesis
    using one_status_before_terminal[OF t, of JSON_parse_sample chat_panel
        "RequestError (JsError ''Error'' ''connect ECONNREFUSED 127.0.0.1:8000'')" chat_open] t
    by blast
qed

subsection \<open>C5\<close>

text \<open>
  Claim C5, amended. A response with a status of 400 or more makes \<^verbatim>\<open>postJson\<close> reject
  with the error \<^verbatim>\<open>HTTP error! status: n\<close>, whatever the body is, and the decimal text in
  the message reads back as the status. The claim as worded, for every status outside
  200 .. 299, fails: the status 302 is below 400 and its body is parsed and resolved.
\<close>

theorem status_400_or_more_rejects:
  assumes "400 \<le> n"
  shows "postJson parse (ResponseEnd (Some n) chunks)
           = Inl (JsError ''Error'' (''HTTP error! status: '' @ toString_nat n))
       \<and> read_decimal (toString_nat n) = n"
  using assms by (simp add: postJson_def on_end_status_error read_decimal_toString_nat)

theorem status_400_or_more_rejects_witness:
  \<open>(400::nat) \<le> 500
   \<and> postJson JSON_parse_sample (ResponseEnd (Some 500) [''{"answer": "moved"}''])
       = Inl (JsError ''Error'' ''HTTP error! status: 500'')
   \<and> read_decimal ''500'' = 500\<close>
proof -
  have h: "(400::nat) \<le> 500" by simp
  have d: "toString_nat 500 = ''500''" by code_simp
  show ?thesis
    using status_400_or_more_rejects[OF h, of JSON_parse_sample] by (simp add: d)
qed

theorem redirect_status_resolves_counterexample:
  \<open>postJson JSON_parse_sample (ResponseEnd (Some 302) [''{"answer": "moved"}''])
     = Inr (JObj [(''answer'', JStr ''moved'')])\<close>
  by (simp add: postJson_def on_end_def on_data_def JSON_parse_sample_def)

subsection \<open>C6\<close>

text \<open>
  Claim C6, amended. For a response with a status below 400, a body that is not empty
  and that \<^verbatim>\<open>JSON.parse\<close> rejects makes \<^verbatim>\<open>postJson\<close> reject with the parser's error,
  and an empty body resolves with the empty object. The claim as worded, for every body
  that is no JSON text, fails on the empty body, which the parser would reject.
\<close>

theorem malformed_nonempty_body_rejects:
  assumes "n < 400"
  shows "(on_data chunks \<noteq> [] \<and> parse (on_data chunks) = Inl e
            \<longrightarrow> postJson parse (ResponseEnd (Some n) chunks) = Inl e)
       \<and> (on_data chunks = [] \<longrightarrow> postJson parse (ResponseEnd (Some n) chunks) = Inr (JObj []))"
  using assms by (simp add: postJson_def on_end_below_400)

theorem malformed_nonempty_body_rejects_witness:
  "(200::nat) < 400
   \<and> on_data [''<html>'', ''</html>''] = ''<html></html>''
   \<and> JSON_parse_sample ''<html></html>''
       = Inl (JsError ''SyntaxError'' ''Unexpected token < in JSON at position 0'')
   \<and> postJson JSON_parse_sample (ResponseEnd (Some 200) [''<html>'', ''</html>''])
       = Inl (JsError ''SyntaxError'' ''Unexpected token < in JSON at position 0'')"
proof -
  have h: "(200::nat) < 400" by simp
  have d: "on_data [''<html>'', ''</html>''] = ''<html></html>''"
    by (simp add: on_data_def)
  have p: "JSON_parse_sample ''<html></html>''
       = Inl (JsError ''SyntaxError'' ''Unexpected token < in JSON at position 0'')"
    by (simp add: JSON_parse_sample_def)
  show ?thesis
    using malformed_nonempty_body_rejects[OF h, of "[''<html>'', ''</html>'']" JSON_parse_sample
        "JsError ''SyntaxError'' ''Unexpected token < in JSON at position 0''"]
    by (simp add: d p)
qed

theorem empty_body_resolves_counterexample:
  "JSON_parse_sample [] = Inl (JsError ''SyntaxError'' ''Unexpected end of JSON input'')
   \<and> postJson JSON_parse_sample (ResponseEnd (Some 200) []) = Inr (JObj [])"
  by (simp add: postJson_def on_end_def on_data_def JSON_parse_sample_def)

subsection \<open>C7\<close>

text \<open>
  Claim C7. When \<^verbatim>\<open>postJson\<close> rejects in an exchange with a non-empty question,
  \<^verbatim>\<open>handleAsk\<close> returns normally; it has posted the status, sent the request and posted
  one error message whose text is the fixed prefix followed by the message of the error;
  nothing else of the state has changed, and there is no answer message.
\<close>

theorem failure_becomes_one_error_message:
  assumes "trim question \<noteq> []" and "postJson parse ev = Inl err"
  shows "handleAsk parse this question ev s =
           Inr (s\<lparr>calls := calls s
                  @ [PostMessage (panel this) (StatusMsg ''Thinking...''),
                     HttpRequest endpoint (JObj [(''question'', JStr (trim question))]),
                     PostMessage (panel this)
                       (ErrorMsg (trim question) (unreachable_prefix @ message err))]\<rparr>)"
  by (simp add: handleAsk_def handleAsk_enter_nonempty[OF assms(1)]
        handleAsk_resume_rejected[OF assms(2)] catch_block_def postMessage_def host_def)

theorem failure_becomes_one_error_message_witness:
  "trim ''Why is my app slow?'' \<noteq> []
   \<and> postJson JSON_parse_sample (RequestError (JsError ''Error'' ''connect ECONNREFUSED 127.0.0.1:8000''))
       = Inl (JsError ''Error'' ''connect ECONNREFUSED 127.0.0.1:8000'')
   \<and> handleAsk JSON_parse_sample chat_panel ''Why is my app slow?''
        (RequestError (JsError ''Error'' ''connect ECONNREFUSED 127.0.0.1:8000'')) chat_open
      = Inr (chat_open\<lparr>calls := calls chat_open
               @ [PostMessage 0 (StatusMsg ''Thinking...''),
                  HttpRequest ''http://localhost:8000/ask'' (JObj [(''question'', JStr ''Why is my app slow?'')]),
                  PostMessage 0 (ErrorMsg ''Why is my app slow?''
                    (''Could not reach the observability service at http://localhost:8000/ask. Is it running?''
                     @ [CHR 0x0A, CHR 0x0A] @ ''connect ECONNREFUSED 127.0.0.1:8000''))]\<rparr>)"
proof -
  have t: "trim ''Why is my app slow?'' \<noteq> []"
    by (simp add: trim_example)
  have r: "postJson JSON_parse_sample (RequestError (JsError ''Error'' ''connect ECONNREFUSED 127.0.0.1:8000''))
       = Inl (JsError ''Error'' ''connect ECONNREFUSED 127.0.0.1:8000'')"
    by (simp add: postJson_def)
  show ?thesis
    using failure_becomes_one_error_message[OF t r, of chat_panel chat_open]
    by (simp add: t r trim_example chat_panel_def endpoint_def unreachable_prefix_def)
qed

subsection \<open>C8\<close>

text \<open>
  Claim C8. For both kinds of panel, after one \<^verbatim>\<open>createOrShow\<close> a panel is registered,
  and a second \<^verbatim>\<open>createOrShow\<close> only reveals that panel: the state after it is the state
  before it with one \<^verbatim>\<open>reveal\<close> call added, so the registered instance is the same one
  and the two calls together have created at most one panel.
\<close>

theorem createOrShow_twice_reveals:
  "(let s1 = ObservabilityPanel_createOrShow uri s;
        s2 = ObservabilityPanel_createOrShow uri s1
    in \<exists>this. currentPanel s1 = Some this
         \<and> s2 = host (Reveal (panel this) (viewColumn s1)) s1
         \<and> created s2 \<le> Suc (created s))
   \<and> (let a1 = ArchDriftPanel_createOrShow s;
           a2 = ArchDriftPanel_createOrShow a1
       in \<exists>p. panels a1 panelKey = Some p
            \<and> a2 = host (Reveal p None) a1
            \<and> created a2 \<le> Suc (created s))"
proof -
  obtain this where c: "currentPanel (ObservabilityPanel_createOrShow uri s) = Some this"
    by (cases "currentPanel s")
       (simp_all add: ObservabilityPanel_createOrShow_new ObservabilityPanel_createOrShow_existing)
  have n: "created (ObservabilityPanel_createOrShow uri s) \<le> Suc (created s)"
    by (cases "currentPanel s")
       (simp_all add: ObservabilityPanel_createOrShow_new ObservabilityPanel_createOrShow_existing)
  obtain p where a: "panels (ArchDriftPanel_createOrShow s) panelKey = Some p"
    by (cases "panels s panelKey") (auto simp: ArchDriftPanel_createOrShow_panels)
  have m: "created (ArchDriftPanel_createOrShow s) \<le> Suc (created s)"
    by (simp add: ArchDriftPanel_createOrShow_created split: option.splits)
  have a2: "ArchDriftPanel_createOrShow (ArchDriftPanel_createOrShow s)
              = host (Reveal p None) (ArchDriftPanel_createOrShow s)"
    using a by (simp add: ArchDriftPanel_createOrShow_def[of "ArchDriftPanel_createOrShow s"])
  show ?thesis
    using c n a m a2 by (simp add: Let_def ObservabilityPanel_createOrShow_existing[OF c])
qed

theorem createOrShow_twice_reveals_witness:
  "(\<exists>this. currentPanel (ObservabilityPanel_createOrShow ''file:///extension'' (initial None)) = Some this
       \<and> ObservabilityPanel_createOrShow ''file:///extension''
            (ObservabilityPanel_createOrShow ''file:///extension'' (initial None))
          = host (Reveal (panel this) None) (ObservabilityPanel_createOrShow ''file:///extension'' (initial None)))
   \<and> (\<exists>p. panels (ArchDriftPanel_createOrShow (initial None)) panelKey = Some p
        \<and> ArchDriftPanel_createOrShow (ArchDriftPanel_createOrShow (initial None))
            = host (Reveal p None) (ArchDriftPanel_createOrShow (initial None)))"
proof -
  have v: "viewColumn (ObservabilityPanel_createOrShow ''file:///extension'' (initial None)) = None"
    by (simp add: ObservabilityPanel_createOrShow_new initial_def viewColumn_def)
  show ?thesis
    using createOrShow_twice_reveals[of "''file:///extension''" "initial None"]
    by (auto simp: Let_def v)
qed

subsection \<open>C9\<close>

text \<open>
  Claim C9. In a state that satisfies the invariant of the registries, disposing the
  registered chat instance clears \<^verbatim>\<open>currentPanel\<close>, disposes the panel and the
  subscriptions of the instance, and the next \<^verbatim>\<open>createOrShow\<close> creates and registers a
  panel other than the disposed one; the close notification of the visualization panel
  deletes its entry, and the next \<^verbatim>\<open>createOrShow\<close> creates and registers another panel.
\<close>

theorem dispose_then_show_creates_fresh_panel:
  assumes "wf s"
  shows "(currentPanel s = Some this \<longrightarrow>
           (case ObservabilityPanel_dispose this s of
              (this', s1) \<Rightarrow>
                currentPanel s1 = None \<and> disposables this' = []
                \<and> calls s1 = calls s @ DisposePanel (panel this)
                                 # map DisposeListener (rev (disposables this))
                \<and> (\<exists>new. currentPanel (ObservabilityPanel_createOrShow uri s1) = Some new
                      \<and> panel new \<noteq> panel this
                      \<and> calls (ObservabilityPanel_createOrShow uri s1)
                          = calls s1 @ [CreateWebviewPanel (panel new) viewType ''Observability Agent''
                                          (or_column (viewColumn s) ViewColumn_One),
                                        SetHtml (panel new) HtmlForWebview,
                                        Listen (OnDidDispose (panel new)),
                                        Listen (OnDidReceiveMessage (panel new))])))
       \<and> (panels s panelKey = Some p \<longrightarrow>
           (let s1 = ArchDriftPanel_onDidDispose s
            in panels s1 panelKey = None
               \<and> (\<exists>p'. panels (ArchDriftPanel_createOrShow s1) panelKey = Some p'
                     \<and> p' \<noteq> p
                     \<and> calls (ArchDriftPanel_createOrShow s1)
                         = calls s1 @ [CreateWebviewPanel p' ''archDriftViewer'' ''Architecture Drift''
                                         (or_column (viewColumn s) ViewColumn_Beside),
                                       SetHtml p' (HtmlForUrl ARCHDRIFT_URL),
                                       Listen (OnDidDispose p')])))"
proof (intro conjI impI)
  assume cur: "currentPanel s = Some this"
  then have lt: "panel this < created s"
    using assms by (rule wf_current_below[rotated])
  let ?s1 = "s\<lparr>currentPanel := None,
        calls := calls s @ DisposePanel (panel this) # map DisposeListener (rev (disposables this))\<rparr>"
  have none: "currentPanel ?s1 = None" by simp
  have vc: "viewColumn ?s1 = viewColumn s" by (simp add: viewColumn_def)
  show "case ObservabilityPanel_dispose this s of
          (this', s1) \<Rightarrow>
            currentPanel s1 = None \<and> disposables this' = []
            \<and> calls s1 = calls s @ DisposePanel (panel this)
                             # map DisposeListener (rev (disposables this))
            \<and> (\<exists>new. currentPanel (ObservabilityPanel_createOrShow uri s1) = Some new
                  \<and> panel new \<noteq> panel this
                  \<and> calls (ObservabilityPanel_createOrShow uri s1)
                      = calls s1 @ [CreateWebviewPanel (panel new) viewType ''Observability Agent''
                                      (or_column (viewColumn s) ViewColumn_One),
                                    SetHtml (panel new) HtmlForWebview,
                                    Listen (OnDidDispose (panel new)),
                                    Listen (OnDidReceiveMessage (panel new))])"
    using lt by (simp add: ObservabilityPanel_dispose_eq ObservabilityPanel_createOrShow_new[OF none] vc)
next
  assume reg: "panels s panelKey = Some p"
  then have lt: "p < created s"
    using assms by (rule wf_drift_below[rotated])
  let ?s1 = "ArchDriftPanel_onDidDispose s"
  have none: "panels ?s1 panelKey = None"
    by (simp add: ArchDriftPanel_onDidDispose_def)
  have same: "created ?s1 = created s" "viewColumn ?s1 = viewColumn s"
    by (simp_all add: ArchDriftPanel_onDidDispose_def viewColumn_def)
  show "let s1 = ArchDriftPanel_onDidDispose s
        in panels s1 panelKey = None
           \<and> (\<exists>p'. panels (ArchDriftPanel_createOrShow s1) panelKey = Some p'
                 \<and> p' \<noteq> p
                 \<and> calls (ArchDriftPanel_createOrShow s1)
                     = calls s1 @ [CreateWebviewPanel p' ''archDriftViewer'' ''Architecture Drift''
                                     (or_column (viewColumn s) ViewColumn_Beside),
                                   SetHtml p' (HtmlForUrl ARCHDRIFT_URL),
                                   Listen (OnDidDispose p')])"
    using lt none
    by (simp add: Let_def ArchDriftPanel_createOrShow_panels ArchDriftPanel_createOrShow_calls same)
qed

theorem dispose_then_show_creates_fresh_panel_witness:
  "wf both_open \<and> currentPanel both_open = Some chat_panel \<and> panels both_open panelKey = Some 1
   \<and> currentPanel (snd (ObservabilityPanel_dispose chat_panel both_open)) = None
   \<and> calls (snd (ObservabilityPanel_dispose chat_panel both_open))
       = calls both_open @ [DisposePanel 0, DisposeListener (OnDidReceiveMessage 0),
                            DisposeListener (OnDidDispose 0)]
   \<and> (\<exists>new. currentPanel (ObservabilityPanel_createOrShow ''file:///extension''
                 (snd (ObservabilityPanel_dispose chat_panel both_open))) = Some new
          \<and> panel new \<noteq> panel chat_panel)
   \<and> panels (ArchDriftPanel_onDidDispose both_open) panelKey = None
   \<and> (\<exists>p'. panels (ArchDriftPanel_createOrShow (ArchDriftPanel_onDidDispose both_open)) panelKey = Some p'
          \<and> p' \<noteq> 1)"
proof -
  have c: "currentPanel both_open = Some chat_panel"
    by (simp add: both_open_eq)
  have p: "panels both_open panelKey = Some 1"
    by (simp add: both_open_eq)
  have d: "panel chat_panel = 0" "disposables chat_panel = [OnDidDispose 0, OnDidReceiveMessage 0]"
    by (simp_all add: chat_panel_def)
  show ?thesis
    using dispose_then_show_creates_fresh_panel[OF wf_both_open, of chat_panel "''file:///extension''" 1]
    by (auto simp: wf_both_open c p d Let_def split: prod.splits)
qed

subsection \<open>C10\<close>

text \<open>
  Claim C10. An \<^verbatim>\<open>openArchDrift\<close> message whose \<^verbatim>\<open>url\<close> is absent or empty leaves the
  state as it is: no call to the host and no message. With a non-empty \<^verbatim>\<open>url\<close> the only
  effect is the request to open it externally.
\<close>

theorem openArchDrift_without_url_ignored:
  assumes "msg_type msg = ''openArchDrift''"
  shows "(msg_url msg = None \<or> msg_url msg = Some [] \<longrightarrow> onDidReceiveMessage this msg s = (None, s))
       \<and> (\<forall>url. msg_url msg = Some url \<and> url \<noteq> [] \<longrightarrow>
             onDidReceiveMessage this msg s = (None, s\<lparr>calls := calls s @ [OpenExternal url]\<rparr>))"
  using assms by (auto simp: onDidReceiveMessage_def host_def)

theorem openArchDrift_without_url_ignored_witness:
  "msg_type \<lparr>msg_type = ''openArchDrift'', msg_text = [], msg_url = None\<rparr> = ''openArchDrift''
   \<and> onDidReceiveMessage chat_panel \<lparr>msg_type = ''openArchDrift'', msg_text = [], msg_url = None\<rparr> chat_open
       = (None, chat_open)
   \<and> onDidReceiveMessage chat_panel \<lparr>msg_type = ''openArchDrift'', msg_text = [], msg_url = Some []\<rparr> chat_open
       = (None, chat_open)
   \<and> onDidReceiveMessage chat_panel
        \<lparr>msg_type = ''openArchDrift'', msg_text = [], msg_url = Some ''https://arch-drift.vercel.app/''\<rparr> chat_open
       = (None, chat_open\<lparr>calls := calls chat_open @ [OpenExternal ''https://arch-drift.vercel.app/'']\<rparr>)"
  using openArchDrift_without_url_ignored[of "\<lparr>msg_type = ''openArchDrift'', msg_text = [], msg_url = None\<rparr>" chat_panel chat_open]
    openArchDrift_without_url_ignored[of "\<lparr>msg_type = ''openArchDrift'', msg_text = [], msg_url = Some []\<rparr>" chat_panel chat_open]
    openArchDrift_without_url_ignored[of "\<lparr>msg_type = ''openArchDrift'', msg_text = [], msg_url = Some ''https://arch-drift.vercel.app/''\<rparr>" chat_panel chat_open]
  by simp

end
